theory Spec2Isabelle
  imports Complex_Main
begin

section \<open>The ISS tracker (\<^verbatim>\<open>src/iss_tracker.py\<close>) as HOL functions\<close>

text \<open>
  Conventions of the embedding.
  \<^item> Python floats are read as real numbers: arithmetic is exact, and there is no infinity
    and no NaN.  Three things of the floats are kept.  The one infinity of the source, the
    initial \<^verbatim>\<open>smallest_diff = float('inf')\<close>, is the value \<open>None\<close> of an option.  The
    OverflowError that \<^verbatim>\<open>x**2\<close> raises when the square is too large for a float is a
    branch of the model.  The sign of a zero that \<^verbatim>\<open>float\<close> returns is kept where the code
    can observe it, in \<^verbatim>\<open>math.atan2(y, x)\<close>.  What is not kept: rounding, a sum of squares
    that exceeds the largest float (Python goes on with infinity, the model with the real
    sum), and texts that \<^verbatim>\<open>float\<close> reads as an infinity or a NaN.  The theorems below
    that give numbers do so at inputs where every intermediate value is an exact float.
  \<^item> The global \<^verbatim>\<open>data\<close> is passed explicitly.  \<open>None\<close> is the empty dictionary
    (\<^verbatim>\<open>not bool(data)\<close>); \<open>Some svs\<close> is a loaded document whose
    \<^verbatim>\<open>data['ndm']['oem']['body']['segment']['data']['stateVector']\<close> is the list \<open>svs\<close>.
  \<^item> Library functions that the source calls (\<^verbatim>\<open>int\<close>, \<^verbatim>\<open>float\<close>,
    \<^verbatim>\<open>time.mktime(time.strptime(..))\<close>, \<^verbatim>\<open>time.time\<close>, the Nominatim reverse geocoder)
    are fields of an environment record, so that every theorem holds for whatever these
    functions return; concrete environments are used to evaluate the code on inputs.
  \<^item> A route returns \<open>Inr\<close> of its payload, or \<open>Inl\<close> of a plain-text body, of a
    400 reply, or of the exception that escapes the function.
\<close>

subsection \<open>Data\<close>

text \<open>One element of the \<^verbatim>\<open>stateVector\<close> list: the epoch text and the \<^verbatim>\<open>'#text'\<close> of
  each of the six components (the \<^verbatim>\<open>'@units'\<close> entries are never read by the code).\<close>

record stateVector =
  EPOCH :: string
  X :: string
  Y :: string
  Z :: string
  X_DOT :: string
  Y_DOT :: string
  Z_DOT :: string

type_synonym store = "stateVector list option"

datatype py_exn = ValueError | TypeError | UnboundLocalError | OverflowError | GeocoderError

datatype error =
    Plain string      \<comment> \<open>a plain-text body, returned with status 200\<close>
  | BadInput string   \<comment> \<open>the pair (text, 400)\<close>
  | Raised py_exn     \<comment> \<open>an exception that the route does not catch\<close>

text \<open>What \<^verbatim>\<open>geocoder.reverse((lat, lon), zoom=.., language='en')\<close> does: it raises, or it
  returns \<^verbatim>\<open>None\<close>, or it returns a location whose \<^verbatim>\<open>str\<close> is the given text.\<close>

datatype geo_reply = Raises | Returns "string option"

record env =
  py_int :: "string \<Rightarrow> int option"             \<comment> \<open>\<^verbatim>\<open>int(s)\<close>; \<open>None\<close> is ValueError\<close>
  py_float :: "string \<Rightarrow> real option"          \<comment> \<open>\<^verbatim>\<open>float(s)\<close>; \<open>None\<close> is ValueError\<close>
  minus_zero :: "string \<Rightarrow> bool"              \<comment> \<open>\<^verbatim>\<open>float(s)\<close> is the negative zero\<close>
  mktime_strptime :: "string \<Rightarrow> real option"   \<comment> \<open>\<^verbatim>\<open>time.mktime(time.strptime(s, '%Y-%jT%H:%M:%S'))\<close>; \<open>None\<close>: it raises\<close>
  time_now :: real                              \<comment> \<open>\<^verbatim>\<open>time.time()\<close>\<close>
  reverse :: "real \<Rightarrow> real \<Rightarrow> nat \<Rightarrow> geo_reply"  \<comment> \<open>latitude, longitude, zoom\<close>

text \<open>The values a query argument takes in \<^verbatim>\<open>showEpochs\<close>: the integer default \<open>0\<close>,
  the text of the request, or the integer parsed from it.\<close>

datatype pyval = PInt int | PStr string

record quantity =
  amount :: real
  units :: string

record location =
  Latitude :: real
  Longitude :: real
  altitude :: quantity
  geo :: string

record now_reply =
  Closest_epoch :: string
  epochTime :: real
  Seconds_from_now :: real
  Location :: location
  Speed :: quantity

subsection \<open>Python primitives\<close>

text \<open>\<^verbatim>\<open>xs[start:stop]\<close> on a list or a string, with Python's clamping and its negative
  indices; \<open>None\<close> is an omitted bound.\<close>

definition py_slice :: "'a list \<Rightarrow> int option \<Rightarrow> int option \<Rightarrow> 'a list" where
  "py_slice xs start stop =
     (let n = int (length xs);
          clamp = (\<lambda>i. if i < 0 then max (n + i) 0 else min i n);
          lo = (case start of None \<Rightarrow> 0 | Some i \<Rightarrow> clamp i);
          hi = (case stop of None \<Rightarrow> n | Some j \<Rightarrow> clamp j)
      in take (nat (hi - lo)) (drop (nat lo) xs))"

text \<open>\<^verbatim>\<open>bool(v)\<close>, \<^verbatim>\<open>a + b\<close> and the use of a value as a slice bound.\<close>

fun truthy :: "pyval \<Rightarrow> bool" where
  "truthy (PInt i) = (i \<noteq> 0)"
| "truthy (PStr s) = (s \<noteq> [])"

fun py_add :: "pyval \<Rightarrow> pyval \<Rightarrow> pyval option" where
  "py_add (PInt a) (PInt b) = Some (PInt (a + b))"
| "py_add (PStr a) (PStr b) = Some (PStr (a @ b))"
| "py_add _ _ = None"

fun py_index :: "pyval \<Rightarrow> int option" where
  "py_index (PInt i) = Some i"
| "py_index (PStr s) = None"

text \<open>\<^verbatim>\<open>math.atan2\<close> and \<^verbatim>\<open>math.degrees\<close> on real numbers.  \<open>atan2\<close> is the function
  for arguments whose zeros are positive.\<close>

definition atan2 :: "real \<Rightarrow> real \<Rightarrow> real" where
  "atan2 y x =
     (if 0 < x then arctan (y / x)
      else if x < 0 then (if 0 \<le> y then arctan (y / x) + pi else arctan (y / x) - pi)
      else if 0 < y then pi / 2
      else if y < 0 then - (pi / 2)
      else 0)"

text \<open>\<^verbatim>\<open>math.atan2(y, x)\<close> with the signs of the zeros: \<open>ny\<close> and \<open>nx\<close> say that \<open>y\<close> and
  \<open>x\<close> are the negative zero when they are zero.  The sign matters on the negative x axis
  only: \<^verbatim>\<open>atan2(0.0, x)\<close> is \<open>pi\<close> and \<^verbatim>\<open>atan2(-0.0, x)\<close> is \<open>-pi\<close> for \<open>x\<close> negative or
  the negative zero; everywhere else the two zeros give the same real number.\<close>

definition atan2_signed :: "bool \<Rightarrow> bool \<Rightarrow> real \<Rightarrow> real \<Rightarrow> real" where
  "atan2_signed ny nx y x =
     (if y = 0 \<and> (x < 0 \<or> (x = 0 \<and> nx)) then (if ny then - pi else pi)
      else atan2 y x)"

text \<open>\<^verbatim>\<open>x**2\<close> on a float raises OverflowError when the square rounds to infinity, that
  is from \<open>2 ^ 1024 - 2 ^ 970\<close> on (half a unit in the last place above the largest
  float).\<close>

definition overflows :: "real \<Rightarrow> bool" where
  "overflows x = (2 ^ 1024 - 2 ^ 970 \<le> x ^ 2)"

definition degrees :: "real \<Rightarrow> real" where
  "degrees r = r * (180 / pi)"

definition MEAN_EARTH_RADIUS :: real where
  "MEAN_EARTH_RADIUS = 6371"

subsection \<open>Fixed texts of the replies\<close>

definition cleared :: string where
  "cleared = ''Data has been cleared.\<newline>''"

definition bad_offset :: string where
  "bad_offset = ''Bad input; please specify a positive integer for offset.''"

definition bad_limit :: string where
  "bad_limit = ''Bad input; please specify a positive integer for limit.''"

definition cannot_be_found :: "string \<Rightarrow> string" where
  "cannot_be_found epoch = ''Epoch '' @ epoch @ '' cannot be found in the data set\<newline>''"

definition was_not_found :: "string \<Rightarrow> string" where
  "was_not_found epoch = ''Epoch '' @ epoch @ '' was not found in the data set\<newline>''"

definition over_the_ocean :: string where
  "over_the_ocean = ''Location may be over the ocean''"

subsection \<open>\<^verbatim>\<open>deleteData\<close> (lines 142-149)\<close>

definition deleteData :: "store \<Rightarrow> store \<times> string" where
  "deleteData data = (None, ''The data has now been cleared\<newline>'')"

subsection \<open>\<^verbatim>\<open>showEpochs\<close> (lines 44-81)\<close>

text \<open>Lines 59-68: a truthy argument is replaced by \<^verbatim>\<open>int\<close> of it; \<open>None\<close> is the
  ValueError that the \<^verbatim>\<open>except\<close> clause turns into the 400 reply.\<close>

definition coerce :: "env \<Rightarrow> pyval \<Rightarrow> pyval option" where
  "coerce e v =
     (if truthy v then
        (case v of PStr s \<Rightarrow> map_option PInt (py_int e s) | PInt i \<Rightarrow> Some (PInt i))
      else Some v)"

text \<open>Lines 73-80: the four slicing cases.  An argument that is still text here (the empty
  text) makes the addition or the slice raise TypeError.\<close>

definition select_epochs :: "string list \<Rightarrow> pyval \<Rightarrow> pyval \<Rightarrow> error + string list" where
  "select_epochs epochs offset limit =
     (if offset \<noteq> PInt 0 \<and> limit \<noteq> PInt 0 then
        (case py_add offset limit of
           None \<Rightarrow> Inl (Raised TypeError)
         | Some stop \<Rightarrow>
            (case (py_index offset, py_index stop) of
               (Some i, Some j) \<Rightarrow> Inr (py_slice epochs (Some i) (Some j))
             | _ \<Rightarrow> Inl (Raised TypeError)))
      else if offset = PInt 0 \<and> limit \<noteq> PInt 0 then
        (case py_add offset limit of
           None \<Rightarrow> Inl (Raised TypeError)
         | Some stop \<Rightarrow>
            (case py_index stop of
               Some j \<Rightarrow> Inr (py_slice epochs None (Some j))
             | None \<Rightarrow> Inl (Raised TypeError)))
      else if offset \<noteq> PInt 0 \<and> limit = PInt 0 then
        (case py_index offset of
           Some i \<Rightarrow> Inr (py_slice epochs (Some i) None)
         | None \<Rightarrow> Inl (Raised TypeError))
      else Inr epochs)"

definition showEpochs :: "env \<Rightarrow> store \<Rightarrow> string option \<Rightarrow> string option \<Rightarrow> error + string list" where
  "showEpochs e data offset_arg limit_arg =
     (let offset = (case offset_arg of None \<Rightarrow> PInt 0 | Some s \<Rightarrow> PStr s);
          limit = (case limit_arg of None \<Rightarrow> PInt 0 | Some s \<Rightarrow> PStr s)
      in case data of
           None \<Rightarrow> Inl (Plain cleared)
         | Some svs \<Rightarrow>
            (case coerce e offset of
               None \<Rightarrow> Inl (BadInput bad_offset)
             | Some offset' \<Rightarrow>
                (case coerce e limit of
                   None \<Rightarrow> Inl (BadInput bad_limit)
                 | Some limit' \<Rightarrow> select_epochs (map EPOCH svs) offset' limit')))"

subsection \<open>\<^verbatim>\<open>showStateVectors\<close> (lines 83-100)\<close>

text \<open>The payload is the matched element itself; \<^verbatim>\<open>json.dumps\<close> only prints it.\<close>

fun find_state_vector :: "stateVector list \<Rightarrow> string \<Rightarrow> error + stateVector" where
  "find_state_vector [] epoch = Inl (Plain (cannot_be_found epoch))"
| "find_state_vector (x # rest) epoch =
     (if EPOCH x = epoch then Inr x else find_state_vector rest epoch)"

definition showStateVectors :: "store \<Rightarrow> string \<Rightarrow> error + stateVector" where
  "showStateVectors data epoch =
     (case data of
        None \<Rightarrow> Inl (Plain cleared)
      | Some svs \<Rightarrow> find_state_vector svs epoch)"

subsection \<open>\<^verbatim>\<open>showSpeed\<close> (lines 102-124)\<close>

text \<open>Lines 118-121 (and 280-283 of \<^verbatim>\<open>getNowLoc\<close>, the same text): three calls of
  \<^verbatim>\<open>float\<close>, then the three squares of line 121.\<close>

definition speed_of :: "env \<Rightarrow> stateVector \<Rightarrow> error + real" where
  "speed_of e x =
     (case py_float e (X_DOT x) of
        None \<Rightarrow> Inl (Raised ValueError)
      | Some x_dot \<Rightarrow>
         (case py_float e (Y_DOT x) of
            None \<Rightarrow> Inl (Raised ValueError)
          | Some y_dot \<Rightarrow>
             (case py_float e (Z_DOT x) of
                None \<Rightarrow> Inl (Raised ValueError)
              | Some z_dot \<Rightarrow>
                 if overflows x_dot \<or> overflows y_dot \<or> overflows z_dot
                 then Inl (Raised OverflowError)
                 else Inr (sqrt (x_dot ^ 2 + y_dot ^ 2 + z_dot ^ 2)))))"

fun speed_loop :: "env \<Rightarrow> stateVector list \<Rightarrow> string \<Rightarrow> error + quantity" where
  "speed_loop e [] epoch = Inl (Plain (was_not_found epoch))"
| "speed_loop e (x # rest) epoch =
     (if EPOCH x = epoch then
        (case speed_of e x of
           Inl err \<Rightarrow> Inl err
         | Inr speed \<Rightarrow> Inr \<lparr>amount = speed, units = ''km/s''\<rparr>)
      else speed_loop e rest epoch)"

definition showSpeed :: "env \<Rightarrow> store \<Rightarrow> string \<Rightarrow> error + quantity" where
  "showSpeed e data epoch =
     (case data of
        None \<Rightarrow> Inl (Plain cleared)
      | Some svs \<Rightarrow> speed_loop e svs epoch)"

subsection \<open>\<^verbatim>\<open>getLocation\<close> (lines 190-228)\<close>

text \<open>Lines 206-218 (and 262-275 of \<^verbatim>\<open>getNowLoc\<close>, the same text): the element \<open>i\<close>
  and the variable \<^verbatim>\<open>epoch\<close> that is in scope.  Line 212 is \<open>lat_of\<close>, lines 213-217 are
  \<open>lon_of\<close> and line 218 is \<open>alt_of\<close>.  The second argument of the \<^verbatim>\<open>atan2\<close> of line
  212 is a square root, whose zero is positive; the arguments of the \<^verbatim>\<open>atan2\<close> of line 213
  are the floats \<open>y\<close> and \<open>x\<close> themselves.\<close>

definition lat_of :: "real \<Rightarrow> real \<Rightarrow> real \<Rightarrow> real" where
  "lat_of x y z = degrees (atan2 z (sqrt (x ^ 2 + y ^ 2)))"

definition lon_of :: "bool \<Rightarrow> bool \<Rightarrow> real \<Rightarrow> real \<Rightarrow> real \<Rightarrow> real \<Rightarrow> real" where
  "lon_of ny nx x y hrs mins =
     (let lon = degrees (atan2_signed ny nx y x) - ((hrs - 12) + (mins / 60)) * (360 / 24) + 24
      in if lon \<le> 180 \<and> lon \<ge> - 180 then lon else - 180 + (lon - 180))"

definition alt_of :: "real \<Rightarrow> real \<Rightarrow> real \<Rightarrow> real" where
  "alt_of x y z = sqrt (x ^ 2 + y ^ 2 + z ^ 2) - MEAN_EARTH_RADIUS"

definition project :: "env \<Rightarrow> stateVector \<Rightarrow> string \<Rightarrow> error + real \<times> real \<times> real" where
  "project e i epoch =
     (case py_float e (X i) of
        None \<Rightarrow> Inl (Raised ValueError)
      | Some x \<Rightarrow>
     (case py_float e (Y i) of
        None \<Rightarrow> Inl (Raised ValueError)
      | Some y \<Rightarrow>
     (case py_float e (Z i) of
        None \<Rightarrow> Inl (Raised ValueError)
      | Some z \<Rightarrow>
     (case py_float e (py_slice epoch (Some 9) (Some (- 11))) of
        None \<Rightarrow> Inl (Raised ValueError)
      | Some hrs \<Rightarrow>
     (case py_float e (py_slice epoch (Some 12) (Some (- 8))) of
        None \<Rightarrow> Inl (Raised ValueError)
      | Some mins \<Rightarrow>
         if overflows x \<or> overflows y then Inl (Raised OverflowError)
         else if overflows z then Inl (Raised OverflowError)
         else Inr (lat_of x y z,
                   lon_of (minus_zero e (Y i)) (minus_zero e (X i)) x y hrs mins,
                   alt_of x y z))))))"

text \<open>Lines 206-221 (and 262-278 of \<^verbatim>\<open>getNowLoc\<close>): the projection, then the call of the
  reverse geocoder with the zoom.  The result is \<^verbatim>\<open>(lat, lon, alt, geoloc)\<close>.\<close>

definition locate :: "env \<Rightarrow> stateVector \<Rightarrow> string \<Rightarrow> nat \<Rightarrow> error + real \<times> real \<times> real \<times> string option" where
  "locate e i epoch zoom =
     (case project e i epoch of
        Inl err \<Rightarrow> Inl err
      | Inr (lat, lon, alt) \<Rightarrow>
         (case reverse e lat lon zoom of
            Raises \<Rightarrow> Inl (Raised GeocoderError)
          | Returns geoloc \<Rightarrow> Inr (lat, lon, alt, geoloc)))"

text \<open>Lines 223-226 (and the \<^verbatim>\<open>'Location'\<close> entry of lines 285-288).\<close>

definition location_of :: "real \<Rightarrow> real \<Rightarrow> real \<Rightarrow> string option \<Rightarrow> location" where
  "location_of lat lon alt geoloc =
     \<lparr>Latitude = lat, Longitude = lon,
      altitude = \<lparr>amount = alt, units = ''km''\<rparr>,
      geo = (case geoloc of None \<Rightarrow> over_the_ocean | Some place \<Rightarrow> place)\<rparr>"

fun location_loop :: "env \<Rightarrow> stateVector list \<Rightarrow> string \<Rightarrow> error + location" where
  "location_loop e [] epoch = Inl (Plain (was_not_found epoch))"
| "location_loop e (i # rest) epoch =
     (if EPOCH i = epoch then
        (case locate e i epoch 1 of
           Inl err \<Rightarrow> Inl err
         | Inr (lat, lon, alt, geoloc) \<Rightarrow> Inr (location_of lat lon alt geoloc))
      else location_loop e rest epoch)"

definition getLocation :: "env \<Rightarrow> store \<Rightarrow> string \<Rightarrow> error + location" where
  "getLocation e data epoch =
     (case data of
        None \<Rightarrow> Inl (Plain cleared)
      | Some svs \<Rightarrow> location_loop e svs epoch)"

subsection \<open>\<^verbatim>\<open>getNowLoc\<close> (lines 230-291)\<close>

text \<open>The local variables that the first loop (lines 250-257) assigns.  \<open>None\<close> in
  \<open>smallest_diff\<close> is \<^verbatim>\<open>float('inf')\<close>; \<open>None\<close> elsewhere is a variable not yet bound.\<close>

record scan =
  smallest_diff :: "real option"
  now_epoch :: "string option"
  epoch_var :: "string option"
  epoch_time :: "real option"

definition scan0 :: scan where
  "scan0 = \<lparr>smallest_diff = None, now_epoch = None, epoch_var = None, epoch_time = None\<rparr>"

definition below :: "real \<Rightarrow> real option \<Rightarrow> bool" where
  "below d m = (case m of None \<Rightarrow> True | Some s \<Rightarrow> d < s)"

fun nearest_loop :: "env \<Rightarrow> stateVector list \<Rightarrow> scan \<Rightarrow> error + scan" where
  "nearest_loop e [] st = Inr st"
| "nearest_loop e (sv # rest) st =
     (let epoch = EPOCH sv in
      case mktime_strptime e (py_slice epoch None (Some (- 5))) of
        None \<Rightarrow> Inl (Raised ValueError)
      | Some t \<Rightarrow>
         (let diff = t - time_now e;
              st1 = st\<lparr>epoch_var := Some epoch, epoch_time := Some t\<rparr>
          in nearest_loop e rest
               (if below \<bar>diff\<bar> (smallest_diff st)
                then st1\<lparr>smallest_diff := Some \<bar>diff\<bar>, now_epoch := Some epoch\<rparr>
                else st1)))"

text \<open>The second loop (lines 259-291).  It compares each element with \<^verbatim>\<open>now_epoch\<close>, and
  in its body reads the variables \<^verbatim>\<open>epoch\<close>, \<^verbatim>\<open>epoch_time\<close> and \<^verbatim>\<open>smallest_diff\<close> as the
  first loop left them.\<close>

fun now_loop :: "env \<Rightarrow> stateVector list \<Rightarrow> scan \<Rightarrow> error + now_reply" where
  "now_loop e [] st =
     (case epoch_var st of
        None \<Rightarrow> Inl (Raised UnboundLocalError)
      | Some epoch \<Rightarrow> Inl (Plain (was_not_found epoch)))"
| "now_loop e (i # rest) st =
     (case now_epoch st of
        None \<Rightarrow> Inl (Raised UnboundLocalError)
      | Some ne \<Rightarrow>
         if EPOCH i = ne then
           (case (epoch_var st, epoch_time st, smallest_diff st) of
              (Some epoch, Some t, Some d) \<Rightarrow>
                (case locate e i epoch 10 of
                   Inl err \<Rightarrow> Inl err
                 | Inr (lat, lon, alt, geoloc) \<Rightarrow>
                    (case speed_of e i of
                       Inl err \<Rightarrow> Inl err
                     | Inr speed \<Rightarrow>
                        Inr \<lparr>Closest_epoch = ne, epochTime = t, Seconds_from_now = d,
                             Location = location_of lat lon alt geoloc,
                             Speed = \<lparr>amount = speed, units = ''km/s''\<rparr>\<rparr>))
            | _ \<Rightarrow> Inl (Raised UnboundLocalError))
         else now_loop e rest st)"

definition getNowLoc :: "env \<Rightarrow> store \<Rightarrow> error + now_reply" where
  "getNowLoc e data =
     (case data of
        None \<Rightarrow> Inl (Plain cleared)
      | Some svs \<Rightarrow>
         (case nearest_loop e svs scan0 of
            Inl err \<Rightarrow> Inl err
          | Inr st \<Rightarrow> now_loop e svs st))"

subsection \<open>Reference points of the statements\<close>

text \<open>Line 253: the absolute time of a sample, and its distance from \<^verbatim>\<open>time_now\<close>
  (line 254 and the \<^verbatim>\<open>abs\<close> of line 255), for samples whose epoch converts.\<close>

definition sample_time :: "env \<Rightarrow> stateVector \<Rightarrow> real option" where
  "sample_time e sv = mktime_strptime e (py_slice (EPOCH sv) None (Some (- 5)))"

definition gap :: "env \<Rightarrow> stateVector \<Rightarrow> real" where
  "gap e sv = \<bar>the (sample_time e sv) - time_now e\<bar>"

text \<open>Index \<open>k\<close> is the first nearest sample of the series: no sample is nearer to
  \<^verbatim>\<open>time_now\<close>, and every sample before it is strictly farther.\<close>

definition first_nearest :: "env \<Rightarrow> stateVector list \<Rightarrow> nat \<Rightarrow> bool" where
  "first_nearest e svs k =
     (k < length svs
      \<and> (\<forall>sv\<in>set svs. gap e (svs ! k) \<le> gap e sv)
      \<and> (\<forall>sv\<in>set (take k svs). gap e (svs ! k) < gap e sv))"

text \<open>A query argument of \<^verbatim>\<open>showEpochs\<close> denotes the integer \<open>n\<close>: it is absent and
  \<open>n = 0\<close>, or it is a non-empty text that \<^verbatim>\<open>int\<close> reads as \<open>n\<close>.\<close>

definition denotes :: "env \<Rightarrow> string option \<Rightarrow> int \<Rightarrow> bool" where
  "denotes e arg n = (case arg of None \<Rightarrow> n = 0 | Some s \<Rightarrow> s \<noteq> [] \<and> py_int e s = Some n)"

subsection \<open>A concrete environment and concrete series\<close>

text \<open>Decimal texts: an optional minus sign and ASCII digits.  On these texts Python's
  \<^verbatim>\<open>int\<close> and \<^verbatim>\<open>float\<close> return the number written, and both raise ValueError on the
  empty text.\<close>

definition digit_of :: "char \<Rightarrow> int option" where
  "digit_of c = map_of (zip ''0123456789'' [0, 1, 2, 3, 4, 5, 6, 7, 8, 9]) c"

fun digits_val :: "string \<Rightarrow> int \<Rightarrow> int option" where
  "digits_val [] acc = Some acc"
| "digits_val (c # cs) acc =
     (case digit_of c of None \<Rightarrow> None | Some d \<Rightarrow> digits_val cs (10 * acc + d))"

definition dec_int :: "string \<Rightarrow> int option" where
  "dec_int s =
     (case s of
        [] \<Rightarrow> None
      | c # cs \<Rightarrow>
         if c = CHR ''-'' then (if cs = [] then None else map_option uminus (digits_val cs 0))
         else digits_val s 0)"

definition dec_float :: "string \<Rightarrow> real option" where
  "dec_float s = map_option real_of_int (dec_int s)"

text \<open>On a decimal text \<^verbatim>\<open>float\<close> returns the negative zero when the text has the minus
  sign and its digits are all 0.\<close>

definition dec_minus_zero :: "string \<Rightarrow> bool" where
  "dec_minus_zero s = (case s of [] \<Rightarrow> False | c # cs \<Rightarrow> c = CHR ''-'' \<and> dec_int s = Some 0)"

text \<open>Seconds since 1970 of four instants of 19 February 2023 (day 050), for a process whose
  local time zone is UTC: 12:00:00 is 1676808000.\<close>

definition utc_table :: "string \<Rightarrow> real option" where
  "utc_table s =
     (if s = ''2023-050T12:00:00'' then Some 1676808000
      else if s = ''2023-050T12:04:00'' then Some 1676808240
      else if s = ''2023-050T12:08:00'' then Some 1676808480
      else if s = ''2023-050T23:00:00'' then Some 1676847600
      else None)"

text \<open>The clock reads 12:02:00, and the geocoder finds no place.\<close>

definition env0 :: env where
  "env0 = \<lparr>py_int = dec_int, py_float = dec_float, minus_zero = dec_minus_zero,
            mktime_strptime = utc_table,
            time_now = 1676808120, reverse = (\<lambda>lat lon zoom. Returns None)\<rparr>"

text \<open>The same, with the clock at 12:00:00.\<close>

definition env_noon :: env where
  "env_noon = env0\<lparr>time_now := 1676808000\<rparr>"

definition sample_at :: "string \<Rightarrow> stateVector" where
  "sample_at epoch =
     \<lparr>EPOCH = epoch, X = ''7000'', Y = ''0'', Z = ''0'', X_DOT = ''1'', Y_DOT = ''0'', Z_DOT = ''0''\<rparr>"

definition T1 :: string where "T1 = ''2023-050T12:00:00.000Z''"
definition T2 :: string where "T2 = ''2023-050T12:04:00.000Z''"
definition T3 :: string where "T3 = ''2023-050T12:08:00.000Z''"

definition series3 :: "stateVector list" where
  "series3 = [sample_at T1, sample_at T2, sample_at T3]"

text \<open>A sample at 23:00 on the negative y axis.\<close>

definition late_sample :: stateVector where
  "late_sample =
     \<lparr>EPOCH = ''2023-050T23:00:00.000Z'', X = ''0'', Y = ''-7000'', Z = ''0'',
      X_DOT = ''1'', Y_DOT = ''0'', Z_DOT = ''0''\<rparr>"

section \<open>Properties\<close>

subsection \<open>The cleared store\<close>

text \<open>
  Claim C6.  After \<^verbatim>\<open>deleteData\<close> (the clear operation) has emptied the store, each of the
  five queries (list epochs, get epoch, get speed, get location, get now) returns the fixed
  text "Data has been cleared." whatever its arguments and whatever the library functions
  would return: no element is looked up.
\<close>

theorem clear_then_query_is_cleared:
  "showEpochs e (fst (deleteData d)) offset_arg limit_arg = Inl (Plain ''Data has been cleared.\<newline>'')
   \<and> showStateVectors (fst (deleteData d)) epoch = Inl (Plain ''Data has been cleared.\<newline>'')
   \<and> showSpeed e (fst (deleteData d)) epoch = Inl (Plain ''Data has been cleared.\<newline>'')
   \<and> getLocation e (fst (deleteData d)) epoch = Inl (Plain ''Data has been cleared.\<newline>'')
   \<and> getNowLoc e (fst (deleteData d)) = Inl (Plain ''Data has been cleared.\<newline>'')"
  by (simp add: deleteData_def showEpochs_def showStateVectors_def showSpeed_def
      getLocation_def getNowLoc_def cleared_def)

text \<open>
  Claim C10.  On the empty store \<^verbatim>\<open>showEpochs\<close> returns the "Data has been cleared." text
  for every offset and limit argument, also for texts that \<^verbatim>\<open>int\<close> rejects: the emptiness
  test of line 56 comes before the validation of lines 59-68, so the reply is never the 400
  reply.
\<close>

theorem showEpochs_empty_store_first:
  "showEpochs e None offset_arg limit_arg = Inl (Plain ''Data has been cleared.\<newline>'')
   \<and> (\<forall>text. showEpochs e None offset_arg limit_arg \<noteq> Inl (BadInput text))"
  by (simp add: showEpochs_def cleared_def)

subsection \<open>Exact lookup\<close>

lemma find_state_vector_hit:
  "distinct (map EPOCH svs) \<Longrightarrow> x \<in> set svs \<Longrightarrow> find_state_vector svs (EPOCH x) = Inr x"
  by (induction svs) auto

lemma find_state_vector_miss:
  "\<forall>x\<in>set svs. EPOCH x \<noteq> epoch \<Longrightarrow>
   find_state_vector svs epoch = Inl (Plain (cannot_be_found epoch))"
  by (induction svs) auto

text \<open>
  Claim C7.  On a loaded series without duplicate epochs, \<^verbatim>\<open>showStateVectors\<close> (get epoch)
  returns the one sample whose epoch text equals the requested text, when there is one, and
  otherwise the not-found text, which repeats the requested epoch.
\<close>

theorem showStateVectors_exact:
  assumes "distinct (map EPOCH svs)"
  shows "(\<forall>x\<in>set svs. EPOCH x = epoch \<longrightarrow> showStateVectors (Some svs) epoch = Inr x)
       \<and> ((\<forall>x\<in>set svs. EPOCH x \<noteq> epoch) \<longrightarrow>
            showStateVectors (Some svs) epoch
              = Inl (Plain (''Epoch '' @ epoch @ '' cannot be found in the data set\<newline>'')))"
  using assms find_state_vector_hit [of svs] find_state_vector_miss [of svs epoch]
  by (auto simp: showStateVectors_def cannot_be_found_def)

theorem showStateVectors_exact_witness:
  "distinct (map EPOCH series3)
   \<and> sample_at T2 \<in> set series3
   \<and> showStateVectors (Some series3) T2 = Inr (sample_at T2)
   \<and> showStateVectors (Some series3) ''2023-050''
       = Inl (Plain ''Epoch 2023-050 cannot be found in the data set\<newline>'')"
  using showStateVectors_exact [of series3 T2] showStateVectors_exact [of series3 "''2023-050''"]
  by (simp add: series3_def sample_at_def T1_def T2_def T3_def)

subsection \<open>Selecting a range of epochs\<close>

lemma py_slice_from:
  "0 \<le> i \<Longrightarrow> py_slice xs (Some i) None = drop (nat i) xs"
  by (simp add: py_slice_def Let_def min_def)

lemma py_slice_upto:
  "0 \<le> j \<Longrightarrow> py_slice xs None (Some j) = take (nat j) xs"
  by (simp add: py_slice_def Let_def min_def)

lemma py_slice_window:
  "0 \<le> i \<Longrightarrow> 0 \<le> l \<Longrightarrow>
   py_slice xs (Some i) (Some (i + l)) = take (nat l) (drop (nat i) xs)"
  by (auto simp: py_slice_def Let_def min_def)

lemma coerce_denotes:
  "denotes e arg n \<Longrightarrow>
   coerce e (case arg of None \<Rightarrow> PInt 0 | Some s \<Rightarrow> PStr s) = Some (PInt n)"
  by (auto simp: denotes_def coerce_def split: option.splits)

text \<open>
  Claim C3.  On a loaded series of length \<open>n\<close>, when the offset and limit arguments denote
  the non-negative integers \<open>ofs\<close> and \<open>lmt\<close>, \<^verbatim>\<open>showEpochs\<close> returns a list of epochs: the
  epochs from index \<open>ofs\<close> on, at most \<open>lmt\<close> of them when \<open>lmt\<close> is not zero.  Its length is
  \<open>max 0 (min lmt (n - ofs))\<close> when both are non-zero, \<open>min lmt n\<close> when only the limit is
  non-zero, \<open>max 0 (n - ofs)\<close> when only the offset is non-zero; when both are absent or
  zero it is the whole list of epochs in series order.
\<close>

theorem showEpochs_lengths:
  assumes "denotes e offset_arg ofs" and "denotes e limit_arg lmt"
    and "0 \<le> ofs" and "0 \<le> lmt"
  shows "\<exists>epochs. showEpochs e (Some svs) offset_arg limit_arg = Inr epochs
     \<and> epochs = (if lmt = 0 then drop (nat ofs) (map EPOCH svs)
                 else take (nat lmt) (drop (nat ofs) (map EPOCH svs)))
     \<and> (ofs \<noteq> 0 \<and> lmt \<noteq> 0 \<longrightarrow>
          int (length epochs) = max 0 (min lmt (int (length svs) - ofs)))
     \<and> (ofs = 0 \<and> lmt \<noteq> 0 \<longrightarrow> int (length epochs) = min lmt (int (length svs)))
     \<and> (ofs \<noteq> 0 \<and> lmt = 0 \<longrightarrow> int (length epochs) = max 0 (int (length svs) - ofs))
     \<and> (ofs = 0 \<and> lmt = 0 \<longrightarrow> epochs = map EPOCH svs)"
proof -
  have run: "showEpochs e (Some svs) offset_arg limit_arg
      = select_epochs (map EPOCH svs) (PInt ofs) (PInt lmt)"
    using assms(1,2) by (simp add: showEpochs_def coerce_denotes)
  have sel: "select_epochs (map EPOCH svs) (PInt ofs) (PInt lmt)
      = Inr (if lmt = 0 then drop (nat ofs) (map EPOCH svs)
             else take (nat lmt) (drop (nat ofs) (map EPOCH svs)))"
    using assms(3,4)
    by (simp add: select_epochs_def py_slice_from py_slice_upto py_slice_window)
  show ?thesis
    using assms(3,4) unfolding run sel by auto
qed

theorem showEpochs_lengths_witness:
  "denotes env0 (Some ''1'') 1 \<and> denotes env0 (Some ''5'') 5 \<and> (0::int) \<le> 1 \<and> (0::int) \<le> 5
   \<and> showEpochs env0 (Some series3) (Some ''1'') (Some ''5'') = Inr [T2, T3]
   \<and> int (length [T2, T3]) = max 0 (min 5 (int (length series3) - 1))"
proof -
  have d1: "denotes env0 (Some ''1'') 1" and d5: "denotes env0 (Some ''5'') 5"
    by (simp_all add: denotes_def env0_def dec_int_def digit_of_def)
  from showEpochs_lengths [OF d1 d5, of series3] d1 d5 show ?thesis
    by (simp add: series3_def sample_at_def)
qed

text \<open>A non-empty text that \<^verbatim>\<open>int\<close> rejects is answered by the 400 reply (lines 59-68).\<close>

lemma showEpochs_rejects_unparsed_offset:
  "s \<noteq> [] \<Longrightarrow> py_int e s = None \<Longrightarrow>
   showEpochs e (Some svs) (Some s) limit_arg = Inl (BadInput bad_offset)"
  by (simp add: showEpochs_def coerce_def)

lemma showEpochs_rejects_unparsed_limit:
  "s \<noteq> [] \<Longrightarrow> py_int e s = None \<Longrightarrow> denotes e offset_arg ofs \<Longrightarrow>
   showEpochs e (Some svs) offset_arg (Some s) = Inl (BadInput bad_limit)"
  by (simp add: showEpochs_def coerce_denotes) (simp add: coerce_def)

text \<open>An argument that is present and empty (\<^verbatim>\<open>?offset=\<close>) is falsy, so line 59 skips
  the parse, and the slice of line 78 raises TypeError on the text.\<close>

lemma showEpochs_empty_text_offset:
  "showEpochs e (Some svs) (Some []) None = Inl (Raised TypeError)"
  by (simp add: showEpochs_def coerce_def select_epochs_def)

text \<open>
  Claim C4 says that a negative offset or limit is answered by the validation error and
  never by a slice with a negative index.  The code at the offset \<^verbatim>\<open>-1\<close>, on the series of
  three samples: \<^verbatim>\<open>int('-1')\<close> succeeds, no sign test follows, and the reply is
  \<^verbatim>\<open>epochs[-1:]\<close>, the last epoch.
\<close>

theorem showEpochs_negative_offset:
  "showEpochs env0 (Some series3) (Some ''-1'') None = Inr [T3]"
  by (simp add: showEpochs_def coerce_def env0_def dec_int_def digit_of_def select_epochs_def
      py_slice_def series3_def sample_at_def)

subsection \<open>Evaluation of the concrete environment\<close>

lemma T1_slices:
  "py_slice T1 (Some 9) (Some (- 11)) = ''12''"
  "py_slice T1 (Some 12) (Some (- 8)) = ''00''"
  "py_slice T1 None (Some (- 5)) = ''2023-050T12:00:00''"
  by (simp_all add: py_slice_def T1_def)

lemma T2_slices:
  "py_slice T2 None (Some (- 5)) = ''2023-050T12:04:00''"
  by (simp_all add: py_slice_def T2_def)

lemma T3_slices:
  "py_slice T3 (Some 9) (Some (- 11)) = ''12''"
  "py_slice T3 (Some 12) (Some (- 8)) = ''08''"
  "py_slice T3 None (Some (- 5)) = ''2023-050T12:08:00''"
  by (simp_all add: py_slice_def T3_def)

lemma short_epoch_slices:
  "py_slice ''2023-050T12:00:00'' (Some 9) (Some (- 11)) = []"
  "py_slice ''2023-050T12:00:00'' (Some 12) (Some (- 8)) = []"
  by (simp_all add: py_slice_def)

lemma late_slices:
  "py_slice ''2023-050T23:00:00.000Z'' (Some 9) (Some (- 11)) = ''23''"
  "py_slice ''2023-050T23:00:00.000Z'' (Some 12) (Some (- 8)) = ''00''"
  by (simp_all add: py_slice_def)

lemma dec_float_values:
  "dec_float ''7000'' = Some 7000" "dec_float ''0'' = Some 0" "dec_float ''1'' = Some 1"
  "dec_float ''12'' = Some 12" "dec_float ''00'' = Some 0" "dec_float ''08'' = Some 8"
  "dec_float ''23'' = Some 23" "dec_float ''-7000'' = Some (- 7000)" "dec_float [] = None"
  by (simp_all add: dec_float_def dec_int_def digit_of_def)

lemma projection_values:
  "lat_of 7000 0 0 = 0" "lon_of ny nx 7000 0 12 0 = 24" "alt_of 7000 0 0 = 629"
  "lon_of ny nx 7000 0 12 8 = 22" "lat_of 0 (- 7000) 0 = 0"
  "lon_of ny nx 0 (- 7000) 23 0 = - 591" "alt_of 0 (- 7000) 0 = 629"
  by (simp_all add: lat_of_def lon_of_def alt_of_def atan2_signed_def atan2_def degrees_def
      MEAN_EARTH_RADIUS_def)

lemma small_squares:
  "\<not> overflows 7000" "\<not> overflows (- 7000)" "\<not> overflows 0" "\<not> overflows 1"
  by (simp_all add: overflows_def)

lemma env0_fields:
  "py_int env0 = dec_int" "py_float env0 = dec_float" "minus_zero env0 = dec_minus_zero"
  "mktime_strptime env0 = utc_table"
  "time_now env0 = 1676808120" "reverse env0 lat lon zoom = Returns None"
  by (simp_all add: env0_def)

lemma env_noon_fields:
  "py_int env_noon = dec_int" "py_float env_noon = dec_float"
  "minus_zero env_noon = dec_minus_zero"
  "mktime_strptime env_noon = utc_table"
  "time_now env_noon = 1676808000" "reverse env_noon lat lon zoom = Returns None"
  by (simp_all add: env_noon_def env0_def)

lemma utc_table_values:
  "utc_table ''2023-050T12:00:00'' = Some 1676808000"
  "utc_table ''2023-050T12:04:00'' = Some 1676808240"
  "utc_table ''2023-050T12:08:00'' = Some 1676808480"
  by (simp_all add: utc_table_def)

lemma sample_at_fields:
  "EPOCH (sample_at ep) = ep" "X (sample_at ep) = ''7000''" "Y (sample_at ep) = ''0''"
  "Z (sample_at ep) = ''0''" "X_DOT (sample_at ep) = ''1''" "Y_DOT (sample_at ep) = ''0''"
  "Z_DOT (sample_at ep) = ''0''"
  by (simp_all add: sample_at_def)





subsection \<open>Location of a matched sample\<close>

lemma location_loop_found:
  "find_state_vector svs epoch = Inr i \<Longrightarrow>
   location_loop e svs epoch =
     (case locate e i epoch 1 of
        Inl err \<Rightarrow> Inl err
      | Inr (lat, lon, alt, geoloc) \<Rightarrow> Inr (location_of lat lon alt geoloc))"
  by (induction svs) (auto split: if_splits)

lemma project_value:
  assumes "py_float e (X i) = Some x" and "py_float e (Y i) = Some y"
    and "py_float e (Z i) = Some z"
    and "py_float e (py_slice epoch (Some 9) (Some (- 11))) = Some hrs"
    and "py_float e (py_slice epoch (Some 12) (Some (- 8))) = Some mins"
    and "\<not> overflows x" and "\<not> overflows y" and "\<not> overflows z"
  shows "project e i epoch =
     Inr (lat_of x y z, lon_of (minus_zero e (Y i)) (minus_zero e (X i)) x y hrs mins,
          alt_of x y z)"
  using assms by (simp add: project_def)

text \<open>The projection of lines 206-218 does not read the geocoder.\<close>

lemma project_reverse_update:
  "project (e\<lparr>reverse := r\<rparr>) i epoch = project e i epoch"
  by (simp add: project_def split: option.splits)

lemma locate_reverse_update:
  "locate (e\<lparr>reverse := r\<rparr>) i epoch zoom =
     (case project e i epoch of
        Inl err \<Rightarrow> Inl err
      | Inr (lat, lon, alt) \<Rightarrow>
         (case r lat lon zoom of
            Raises \<Rightarrow> Inl (Raised GeocoderError)
          | Returns geoloc \<Rightarrow> Inr (lat, lon, alt, geoloc)))"
  by (simp add: locate_def project_reverse_update split: sum.splits prod.splits)

lemma location_loop_no_place:
  assumes "location_loop (e\<lparr>reverse := ra\<rparr>) svs epoch = Inr loc"
    and "rb (Latitude loc) (Longitude loc) 1 = Returns None"
  shows "location_loop (e\<lparr>reverse := rb\<rparr>) svs epoch
     = Inr (loc\<lparr>geo := ''Location may be over the ocean''\<rparr>)"
  using assms
proof (induction svs)
  case Nil
  then show ?case by simp
next
  case (Cons i rest)
  show ?case
  proof (cases "EPOCH i = epoch")
    case False
    with Cons show ?thesis by simp
  next
    case True
    with Cons.prems(1) obtain lat lon alt g where
      p: "project e i epoch = Inr (lat, lon, alt)" and loc: "loc = location_of lat lon alt g"
      by (auto simp: locate_reverse_update split: sum.splits prod.splits geo_reply.splits)
    from Cons.prems(2) have "rb lat lon 1 = Returns None"
      by (simp add: loc location_of_def)
    with True p show ?thesis
      by (simp add: locate_reverse_update loc location_of_def over_the_ocean_def)
  qed
qed

text \<open>
  Claim C9, as amended.  Take a request for which \<^verbatim>\<open>getLocation\<close> returns a location \<open>loc\<close>
  with some reverse geocoder \<open>ra\<close>: the sample is matched, \<^verbatim>\<open>float\<close> reads its texts and the
  hour and minute slices, the squares do not overflow, and the geocoder does not raise.  Put
  in its place a geocoder \<open>rb\<close> that returns no result at the latitude and longitude of
  \<open>loc\<close>.  Then the same request does not fail: it returns the same latitude, longitude and
  altitude, with the text "Location may be over the ocean" as the place description.
\<close>

theorem getLocation_no_place:
  assumes "getLocation (e\<lparr>reverse := ra\<rparr>) (Some svs) epoch = Inr loc"
    and "rb (Latitude loc) (Longitude loc) 1 = Returns None"
  shows "getLocation (e\<lparr>reverse := rb\<rparr>) (Some svs) epoch
     = Inr \<lparr>Latitude = Latitude loc, Longitude = Longitude loc, altitude = altitude loc,
            geo = ''Location may be over the ocean''\<rparr>"
proof -
  from assms(1) have "location_loop (e\<lparr>reverse := ra\<rparr>) svs epoch = Inr loc"
    by (simp add: getLocation_def)
  from location_loop_no_place [where rb = rb, OF this assms(2)] show ?thesis
    by (cases loc) (simp add: getLocation_def)
qed

text \<open>The witness: the first of three samples, with a geocoder that finds a place and with one
  that finds none.\<close>

theorem getLocation_no_place_witness:
  "getLocation (env0\<lparr>reverse := (\<lambda>lat lon zoom. Returns (Some ''Gulf of Guinea''))\<rparr>)
       (Some series3) T1
     = Inr \<lparr>Latitude = 0, Longitude = 24, altitude = \<lparr>amount = 629, units = ''km''\<rparr>,
            geo = ''Gulf of Guinea''\<rparr>
   \<and> (\<lambda>lat lon zoom. Returns None) (0::real) (24::real) (1::nat) = Returns None
   \<and> getLocation (env0\<lparr>reverse := (\<lambda>lat lon zoom. Returns None)\<rparr>) (Some series3) T1
     = Inr \<lparr>Latitude = 0, Longitude = 24, altitude = \<lparr>amount = 629, units = ''km''\<rparr>,
            geo = ''Location may be over the ocean''\<rparr>"
proof -
  have p: "project env0 (sample_at T1) T1 = Inr (0, 24, 629)"
    by (simp add: project_def sample_at_fields T1_slices env0_fields dec_float_values
        projection_values small_squares)
  have found: "getLocation (env0\<lparr>reverse := (\<lambda>lat lon zoom. Returns (Some ''Gulf of Guinea''))\<rparr>)
       (Some series3) T1
     = Inr \<lparr>Latitude = 0, Longitude = 24, altitude = \<lparr>amount = 629, units = ''km''\<rparr>,
            geo = ''Gulf of Guinea''\<rparr>"
    by (simp add: getLocation_def series3_def sample_at_fields locate_reverse_update p
        location_of_def)
  from getLocation_no_place [where rb = "\<lambda>lat lon zoom. Returns None", OF found] found
  show ?thesis by simp
qed

text \<open>
  Claim C9 as stated fails twice.  With a geocoder that returns nothing, the place
  description of the reply is "Location may be over the ocean", not the text "location may
  be over open water"; and a matched sample whose epoch text has no fraction part
  (\<^verbatim>\<open>2023-050T12:00:00\<close>) makes \<^verbatim>\<open>float(epoch[9:-11])\<close> raise ValueError on the empty
  slice, so the route fails.
\<close>

theorem getLocation_fallback_text_differs:
  "(\<exists>loc. getLocation env0 (Some [sample_at T1]) T1 = Inr loc
          \<and> geo loc = ''Location may be over the ocean''
          \<and> geo loc \<noteq> ''location may be over open water'')
   \<and> find_state_vector [sample_at ''2023-050T12:00:00''] ''2023-050T12:00:00''
       = Inr (sample_at ''2023-050T12:00:00'')
   \<and> reverse env0 0 24 1 = Returns None
   \<and> getLocation env0 (Some [sample_at ''2023-050T12:00:00'']) ''2023-050T12:00:00''
       = Inl (Raised ValueError)"
proof -
  have "getLocation env0 (Some [sample_at T1]) T1
      = Inr (location_of 0 24 629 None)"
    by (simp add: getLocation_def locate_def project_def env0_fields sample_at_fields
        T1_slices dec_float_values projection_values small_squares)
  moreover have "geo (location_of 0 24 629 None) = ''Location may be over the ocean''"
    by (simp add: location_of_def over_the_ocean_def)
  moreover have "getLocation env0 (Some [sample_at ''2023-050T12:00:00'']) ''2023-050T12:00:00''
      = Inl (Raised ValueError)"
    by (simp add: getLocation_def locate_def project_def env0_fields sample_at_fields
        short_epoch_slices dec_float_values)
  ultimately show ?thesis
    by (simp add: env0_def sample_at_def)
qed

subsection \<open>The nearest sample\<close>

lemma nearest_loop_snoc:
  "nearest_loop e (xs @ [sv]) st =
     (case nearest_loop e xs st of Inl err \<Rightarrow> Inl err | Inr st' \<Rightarrow> nearest_loop e [sv] st')"
  by (induction xs arbitrary: st) (simp_all add: Let_def split: option.splits)

lemma nearest_loop_single:
  "sample_time e sv = Some t \<Longrightarrow>
   nearest_loop e [sv] st =
     Inr (if below (gap e sv) (smallest_diff st)
          then st\<lparr>epoch_var := Some (EPOCH sv), epoch_time := Some t,
                  smallest_diff := Some (gap e sv), now_epoch := Some (EPOCH sv)\<rparr>
          else st\<lparr>epoch_var := Some (EPOCH sv), epoch_time := Some t\<rparr>)"
  by (simp add: sample_time_def gap_def Let_def)

lemma first_nearest_single: "first_nearest e [sv] 0"
  by (simp add: first_nearest_def)

lemma first_nearest_keep:
  assumes "first_nearest e xs k" and "gap e (xs ! k) \<le> gap e sv"
  shows "first_nearest e (xs @ [sv]) k"
  using assms by (auto simp: first_nearest_def nth_append)

lemma first_nearest_move:
  assumes "first_nearest e xs k" and "gap e sv < gap e (xs ! k)"
  shows "first_nearest e (xs @ [sv]) (length xs)"
  using assms by (fastforce simp: first_nearest_def)

text \<open>The state in which the first loop of \<^verbatim>\<open>getNowLoc\<close> ends: \<^verbatim>\<open>now_epoch\<close> and
  \<^verbatim>\<open>smallest_diff\<close> belong to the first nearest sample, \<^verbatim>\<open>epoch\<close> and \<^verbatim>\<open>epoch_time\<close> to
  the last sample of the series.\<close>

lemma nearest_loop_scan:
  assumes "svs \<noteq> []" and "\<forall>sv\<in>set svs. sample_time e sv \<noteq> None"
  shows "\<exists>k st. first_nearest e svs k \<and> nearest_loop e svs scan0 = Inr st
     \<and> now_epoch st = Some (EPOCH (svs ! k)) \<and> smallest_diff st = Some (gap e (svs ! k))
     \<and> epoch_var st = Some (EPOCH (last svs)) \<and> epoch_time st = sample_time e (last svs)"
  using assms
proof (induction svs rule: rev_nonempty_induct)
  case (single sv)
  then obtain t where t: "sample_time e sv = Some t" by auto
  show ?case
    using first_nearest_single [of e sv]
    by (simp add: nearest_loop_single [OF t] scan0_def below_def t del: nearest_loop.simps)
      (rule exI [of _ 0], simp)
next
  case (snoc sv xs)
  then obtain k st where k: "first_nearest e xs k" and run: "nearest_loop e xs scan0 = Inr st"
    and ne: "now_epoch st = Some (EPOCH (xs ! k))" and sd: "smallest_diff st = Some (gap e (xs ! k))"
    by auto
  from snoc.prems obtain t where t: "sample_time e sv = Some t" by auto
  have klt: "k < length xs" using k by (simp add: first_nearest_def)
  show ?case
  proof (cases "gap e sv < gap e (xs ! k)")
    case True
    with first_nearest_move [OF k] have "first_nearest e (xs @ [sv]) (length xs)" by simp
    then show ?thesis
      using True
      by (simp add: nearest_loop_snoc run nearest_loop_single [OF t] sd below_def t
          del: nearest_loop.simps) (rule exI [of _ "length xs"], simp)
  next
    case False
    with first_nearest_keep [OF k] have "first_nearest e (xs @ [sv]) k" by simp
    then show ?thesis
      using False klt
      by (simp add: nearest_loop_snoc run nearest_loop_single [OF t] sd ne below_def t
          del: nearest_loop.simps) (rule exI [of _ k], simp add: nth_append)
  qed
qed

lemma now_loop_reply:
  "now_loop e svs st = Inr r \<Longrightarrow>
   now_epoch st = Some (Closest_epoch r) \<and> smallest_diff st = Some (Seconds_from_now r)
   \<and> epoch_time st = Some (epochTime r)"
  by (induction svs) (auto split: option.splits if_splits sum.splits prod.splits)



text \<open>On a non-empty series, the \<^verbatim>\<open>epochTime\<close> of a reply of \<^verbatim>\<open>getNowLoc\<close> is the
  absolute time of the last sample of the series: the second loop reads \<^verbatim>\<open>epoch_time\<close>
  as the first loop left it.\<close>

lemma getNowLoc_reads_last_sample:
  assumes "svs \<noteq> []" and "\<forall>sv\<in>set svs. sample_time e sv \<noteq> None"
    and "getNowLoc e (Some svs) = Inr r"
  shows "Some (epochTime r) = sample_time e (last svs)"
proof -
  from nearest_loop_scan [OF assms(1,2)] obtain st where
    run: "nearest_loop e svs scan0 = Inr st" and t: "epoch_time st = sample_time e (last svs)"
    by blast
  from assms(3) run have "now_loop e svs st = Inr r" by (simp add: getNowLoc_def)
  from now_loop_reply [OF this] t show ?thesis by simp
qed

lemma noon_scan:
  "nearest_loop env_noon series3 scan0 =
     Inr \<lparr>smallest_diff = Some 0, now_epoch = Some T1, epoch_var = Some T3,
          epoch_time = Some 1676808480\<rparr>"
  by (simp add: series3_def sample_at_fields scan0_def below_def T1_slices T2_slices T3_slices
      env_noon_fields utc_table_values Let_def)

text \<open>
  Claim C2 says that the reply of \<^verbatim>\<open>getNowLoc\<close> carries the matched sample's own absolute
  time and a location computed with the hour and minute of the matched sample's epoch.  The
  code on three samples at 12:00, 12:04 and 12:08, all at position (7000, 0, 0), with the
  clock at 12:00:00: the matched sample is the first (difference 0, absolute time
  1676808000), but \<^verbatim>\<open>epochTime\<close> is 1676808480, the time of the last sample, and the
  longitude is 22, computed with minute 08 of the last epoch; \<^verbatim>\<open>getLocation\<close> for the
  matched epoch gives the longitude 24.  Lines 265-266 and 286-288 read the variables
  \<^verbatim>\<open>epoch\<close> and \<^verbatim>\<open>epoch_time\<close>, which the first loop leaves at the last sample.
\<close>

theorem getNowLoc_stale_epoch:
  "getNowLoc env_noon (Some series3) =
     Inr \<lparr>Closest_epoch = T1, epochTime = 1676808480, Seconds_from_now = 0,
          Location = \<lparr>Latitude = 0, Longitude = 22,
                      altitude = \<lparr>amount = 629, units = ''km''\<rparr>,
                      geo = ''Location may be over the ocean''\<rparr>,
          Speed = \<lparr>amount = 1, units = ''km/s''\<rparr>\<rparr>
   \<and> sample_time env_noon (sample_at T1) = Some 1676808000
   \<and> sample_time env_noon (sample_at T3) = Some 1676808480
   \<and> getLocation env_noon (Some series3) T1 =
     Inr \<lparr>Latitude = 0, Longitude = 24, altitude = \<lparr>amount = 629, units = ''km''\<rparr>,
          geo = ''Location may be over the ocean''\<rparr>"
proof -
  have "getNowLoc env_noon (Some series3) =
      now_loop env_noon series3 \<lparr>smallest_diff = Some 0, now_epoch = Some T1,
        epoch_var = Some T3, epoch_time = Some 1676808480\<rparr>"
    by (simp add: getNowLoc_def noon_scan)
  also have "\<dots> = Inr \<lparr>Closest_epoch = T1, epochTime = 1676808480, Seconds_from_now = 0,
          Location = location_of 0 22 629 None,
          Speed = \<lparr>amount = 1, units = ''km/s''\<rparr>\<rparr>"
    by (simp add: series3_def sample_at_fields locate_def project_def speed_of_def T3_slices
        env_noon_fields dec_float_values projection_values small_squares)
  finally have now: "getNowLoc env_noon (Some series3) =
      Inr \<lparr>Closest_epoch = T1, epochTime = 1676808480, Seconds_from_now = 0,
          Location = location_of 0 22 629 None,
          Speed = \<lparr>amount = 1, units = ''km/s''\<rparr>\<rparr>" .
  have loc: "getLocation env_noon (Some series3) T1 = Inr (location_of 0 24 629 None)"
    by (simp add: getLocation_def series3_def sample_at_fields locate_def project_def
        T1_slices env_noon_fields dec_float_values projection_values small_squares)
  have times: "sample_time env_noon (sample_at T1) = Some 1676808000"
    "sample_time env_noon (sample_at T3) = Some 1676808480"
    by (simp_all add: sample_time_def sample_at_fields env_noon_fields utc_table_values
        T1_slices T3_slices)
  show ?thesis
    by (simp add: now loc times location_of_def over_the_ocean_def)
qed

subsection \<open>The longitude\<close>

text \<open>Lines 214-217 subtract 360 from every longitude outside \<open>[-180, 180]\<close>.  That
  brings a raw value of at most 540 into the range, and moves a raw value below \<open>-180\<close>
  further away.\<close>

lemma lon_of_above:
  assumes "raw = degrees (atan2_signed ny nx y x) - ((hrs - 12) + mins / 60) * (360 / 24) + 24"
    and "- 180 \<le> raw" and "raw \<le> 540"
  shows "- 180 \<le> lon_of ny nx x y hrs mins \<and> lon_of ny nx x y hrs mins \<le> 180"
  using assms by (auto simp: lon_of_def Let_def)

lemma lon_of_below:
  assumes "raw = degrees (atan2_signed ny nx y x) - ((hrs - 12) + mins / 60) * (360 / 24) + 24"
    and "raw < - 180"
  shows "lon_of ny nx x y hrs mins = raw - 360"
  using assms by (auto simp: lon_of_def Let_def)

text \<open>
  Claim C1 says that the returned longitude lies in \<open>[-180, 180]\<close> whenever the raw
  longitude (after the correction and the offset 24, before lines 214-217) lies in
  \<open>[-360, 360]\<close>.  The code on a sample at 23:00 with position (0, -7000, 0): the raw
  longitude is \<open>-90 - 11 * 15 + 24 = -231\<close>, and the returned longitude is
  \<open>-180 + (-231 - 180) = -591\<close>.
\<close>

theorem getLocation_longitude_below_range:
  "degrees (atan2 (- 7000) 0) - ((23 - 12) + 0 / 60) * (360 / 24) + 24 = - 231
   \<and> getLocation env0 (Some [late_sample]) ''2023-050T23:00:00.000Z'' =
     Inr \<lparr>Latitude = 0, Longitude = - 591, altitude = \<lparr>amount = 629, units = ''km''\<rparr>,
          geo = ''Location may be over the ocean''\<rparr>"
proof -
  have "getLocation env0 (Some [late_sample]) ''2023-050T23:00:00.000Z''
      = Inr (location_of 0 (- 591) 629 None)"
    by (simp add: getLocation_def late_sample_def locate_def project_def late_slices
        env0_fields dec_float_values projection_values small_squares)
  then show ?thesis
    by (simp add: location_of_def over_the_ocean_def atan2_def degrees_def)
qed

subsection \<open>The scenario of one sample\<close>

lemma single_sample_speed:
  assumes "py_float e (X_DOT i) = Some 1" and "py_float e (Y_DOT i) = Some 0"
    and "py_float e (Z_DOT i) = Some 0"
  shows "showSpeed e (Some [i]) (EPOCH i) = Inr \<lparr>amount = 1, units = ''km/s''\<rparr>"
  using assms by (simp add: showSpeed_def speed_of_def small_squares)

text \<open>
  Claim C8, as amended.  The series is one sample whose epoch text is
  \<^verbatim>\<open>2023-050T12:00:00.000Z\<close> (the format of the feed, with the fraction and the Z), whose
  velocity texts \<^verbatim>\<open>float\<close> reads as (1, 0, 0) and whose position texts it reads as
  (7000, 0, 0); \<^verbatim>\<open>float\<close> reads the hour text 12 as 12 and the minute text 00 as 0; and
  the reverse geocoder returns (a place, or nothing) at latitude 0 and longitude 24.  Then
  for that epoch \<^verbatim>\<open>showSpeed\<close> returns 1 km/s, \<^verbatim>\<open>showStateVectors\<close> returns the sample
  itself, and \<^verbatim>\<open>getLocation\<close> returns latitude 0, the longitude of the correction formula
  at hour 12 and minute 00, which is 24, the altitude 7000 - 6371 = 629 km, and as place
  description the geocoder's place, or "Location may be over the ocean" when it found none.
\<close>

theorem single_sample_scenario:
  assumes "EPOCH i = ''2023-050T12:00:00.000Z''"
    and "py_float e (X i) = Some 7000" and "py_float e (Y i) = Some 0"
    and "py_float e (Z i) = Some 0"
    and "py_float e (X_DOT i) = Some 1" and "py_float e (Y_DOT i) = Some 0"
    and "py_float e (Z_DOT i) = Some 0"
    and "py_float e ''12'' = Some 12" and "py_float e ''00'' = Some 0"
    and "reverse e 0 24 1 = Returns geoloc"
  shows "showSpeed e (Some [i]) (EPOCH i) = Inr \<lparr>amount = 1, units = ''km/s''\<rparr>
     \<and> showStateVectors (Some [i]) (EPOCH i) = Inr i
     \<and> getLocation e (Some [i]) (EPOCH i) =
         Inr \<lparr>Latitude = 0,
              Longitude = degrees (atan2 0 7000) - ((12 - 12) + 0 / 60) * (360 / 24) + 24,
              altitude = \<lparr>amount = 7000 - 6371, units = ''km''\<rparr>,
              geo = (case geoloc of None \<Rightarrow> ''Location may be over the ocean''
                     | Some place \<Rightarrow> place)\<rparr>
     \<and> degrees (atan2 0 7000) - ((12 - 12) + 0 / 60) * (360 / 24) + 24 = 24
     \<and> (7000 :: real) - 6371 = 629"
proof -
  have hrs: "py_float e (py_slice (EPOCH i) (Some 9) (Some (- 11))) = Some 12"
    and mins: "py_float e (py_slice (EPOCH i) (Some 12) (Some (- 8))) = Some 0"
    using assms(8,9) by (simp_all add: assms(1) py_slice_def)
  have found: "find_state_vector [i] (EPOCH i) = Inr i" by simp
  have p: "project e i (EPOCH i) = Inr (0, 24, 629)"
    using project_value [OF assms(2-4) hrs mins] by (simp add: projection_values small_squares)
  have lon: "degrees (atan2 0 7000) - ((12 - 12) + 0 / 60) * (360 / 24) + 24 = 24"
    by (simp add: atan2_def degrees_def)
  have "getLocation e (Some [i]) (EPOCH i) =
     Inr \<lparr>Latitude = 0, Longitude = 24, altitude = \<lparr>amount = 629, units = ''km''\<rparr>,
          geo = (case geoloc of None \<Rightarrow> over_the_ocean | Some place \<Rightarrow> place)\<rparr>"
    using location_loop_found [OF found, of e] assms(10)
    by (simp add: getLocation_def locate_def p location_of_def)
  then show ?thesis
    using single_sample_speed [OF assms(5-7)] lon
    by (cases geoloc) (simp_all add: showStateVectors_def over_the_ocean_def)
qed

theorem single_sample_scenario_witness:
  "EPOCH (sample_at T1) = ''2023-050T12:00:00.000Z''
   \<and> py_float env0 (X (sample_at T1)) = Some 7000 \<and> py_float env0 (Y (sample_at T1)) = Some 0
   \<and> py_float env0 (Z (sample_at T1)) = Some 0
   \<and> py_float env0 (X_DOT (sample_at T1)) = Some 1 \<and> py_float env0 (Y_DOT (sample_at T1)) = Some 0
   \<and> py_float env0 (Z_DOT (sample_at T1)) = Some 0
   \<and> py_float env0 ''12'' = Some 12 \<and> py_float env0 ''00'' = Some 0
   \<and> reverse env0 0 24 1 = Returns None
   \<and> showSpeed env0 (Some [sample_at T1]) T1 = Inr \<lparr>amount = 1, units = ''km/s''\<rparr>
   \<and> showStateVectors (Some [sample_at T1]) T1 = Inr (sample_at T1)
   \<and> getLocation env0 (Some [sample_at T1]) T1 =
       Inr \<lparr>Latitude = 0, Longitude = 24, altitude = \<lparr>amount = 629, units = ''km''\<rparr>,
            geo = ''Location may be over the ocean''\<rparr>"
proof -
  have ep: "EPOCH (sample_at T1) = ''2023-050T12:00:00.000Z''"
    by (simp add: sample_at_fields T1_def)
  have p: "py_float env0 (X (sample_at T1)) = Some 7000" "py_float env0 (Y (sample_at T1)) = Some 0"
    "py_float env0 (Z (sample_at T1)) = Some 0"
    "py_float env0 (X_DOT (sample_at T1)) = Some 1" "py_float env0 (Y_DOT (sample_at T1)) = Some 0"
    "py_float env0 (Z_DOT (sample_at T1)) = Some 0"
    "py_float env0 ''12'' = Some 12" "py_float env0 ''00'' = Some 0"
    by (simp_all add: env0_fields sample_at_fields dec_float_values)
  have r: "reverse env0 0 24 1 = Returns None" by (simp add: env0_fields)
  from single_sample_scenario [OF ep p r] ep p r show ?thesis
    by (simp add: sample_at_fields)
qed

text \<open>
  Claim C8 as stated fails twice.  It names the epoch text \<^verbatim>\<open>2023-050T12:00:00\<close>: on that
  text the speed and the sample are returned as claimed, but \<^verbatim>\<open>epoch[9:-11]\<close> is the empty
  text, \<^verbatim>\<open>float\<close> raises ValueError on it, and \<^verbatim>\<open>getLocation\<close> returns no location.  And it
  says nothing of the reverse geocoder: with the epoch text of the feed and a geocoder that
  raises, lines 220-221 let the exception escape and \<^verbatim>\<open>getLocation\<close> returns no location.
\<close>

theorem single_sample_location_fails:
  "showSpeed env0 (Some [sample_at ''2023-050T12:00:00'']) ''2023-050T12:00:00''
     = Inr \<lparr>amount = 1, units = ''km/s''\<rparr>
   \<and> showStateVectors (Some [sample_at ''2023-050T12:00:00'']) ''2023-050T12:00:00''
     = Inr (sample_at ''2023-050T12:00:00'')
   \<and> py_slice ''2023-050T12:00:00'' (Some 9) (Some (- 11)) = []
   \<and> py_float env0 [] = None
   \<and> getLocation env0 (Some [sample_at ''2023-050T12:00:00'']) ''2023-050T12:00:00''
     = Inl (Raised ValueError)
   \<and> getLocation (env0\<lparr>reverse := (\<lambda>lat lon zoom. Raises)\<rparr>) (Some [sample_at T1]) T1
     = Inl (Raised GeocoderError)"
proof -
  have p: "project env0 (sample_at T1) T1 = Inr (0, 24, 629)"
    by (simp add: project_def sample_at_fields T1_slices env0_fields dec_float_values
        projection_values small_squares)
  have "getLocation (env0\<lparr>reverse := (\<lambda>lat lon zoom. Raises)\<rparr>) (Some [sample_at T1]) T1
     = Inl (Raised GeocoderError)"
    by (simp add: getLocation_def sample_at_fields locate_reverse_update p)
  then show ?thesis
    by (simp add: showSpeed_def speed_of_def showStateVectors_def getLocation_def locate_def
        project_def sample_at_fields env0_fields dec_float_values short_epoch_slices
        small_squares)
qed

end
